theory Spec2Isabelle
  imports Main "HOL-Library.Sublist"
begin

section \<open>Text helpers of the shell script\<close>

text \<open>
  The mode-apply utility is a bash script (\<^verbatim>\<open>cc-manager.sh\<close>). Strings are
  \<^typ>\<open>string\<close>. Shell functions whose names start with an underscore keep their
  names without it. The values handled here (bus addresses, mode words, node label values)
  are single shell words: they hold no whitespace and no glob character, so the unquoted
  expansions of the script pass them on unchanged.
\<close>

definition PAUSED_STR :: string where
  "PAUSED_STR = ''paused-for-cc-mode-change''"

text \<open>The bash test \<^verbatim>\<open>[[ "$s" == *"$pat"* ]]\<close>: \<open>pat\<close> occurs in \<open>s\<close>.\<close>

fun contains :: "string \<Rightarrow> string \<Rightarrow> bool" where
  "contains pat [] = (pat = [])"
| "contains pat (c # cs) = (prefix pat (c # cs) \<or> contains pat cs)"

text \<open>
  \<^verbatim>\<open>sed -r "s/pat//g"\<close> for a pattern without regular-expression operators:
  every occurrence of \<open>pat\<close> is deleted, scanning from the left, the scan resuming
  after each deleted occurrence.
\<close>

function sed_delete :: "string \<Rightarrow> string \<Rightarrow> string" where
  "sed_delete pat [] = []"
| "sed_delete pat (c # cs) =
     (if pat \<noteq> [] \<and> prefix pat (c # cs)
      then sed_delete pat (drop (length pat) (c # cs))
      else c # sed_delete pat cs)"
  by pat_completeness auto
termination
  by (relation "measure (\<lambda>(pat, s). length s)") auto

text \<open>\<^verbatim>\<open>tr -d "_"\<close>\<close>

definition tr_delete :: "char \<Rightarrow> string \<Rightarrow> string" where
  "tr_delete d s = filter (\<lambda>c. c \<noteq> d) s"

subsection \<open>The Pause and Resume transforms of a deployment label\<close>

definition maybe_set_paused :: "string \<Rightarrow> string" where
  "maybe_set_paused current_value =
     (if current_value = '''' then ''''
      else if current_value = ''false'' then ''false''
      else if current_value = ''true'' then PAUSED_STR
      else if contains PAUSED_STR current_value then current_value
      else current_value @ ''_'' @ PAUSED_STR)"

definition maybe_set_true :: "string \<Rightarrow> string" where
  "maybe_set_true current_value =
     (if current_value = ''false'' then ''false''
      else if current_value = PAUSED_STR then ''true''
      else tr_delete (CHR ''_'') (sed_delete PAUSED_STR current_value))"

subsection \<open>Parsing the mode out of the hardware tool's text\<close>

definition is_valid_mode :: "string \<Rightarrow> bool" where
  "is_valid_mode mode = (mode = ''on'' \<or> mode = ''off'' \<or> mode = ''devtools'')"

definition is_blank :: "char \<Rightarrow> bool" where
  "is_blank c = (c = CHR '' '' \<or> c = CHR 0x09 \<or> c = CHR 0x0A)"

text \<open>
  Splitting at blanks, as the shell does for an unquoted expansion and awk for its
  fields: \<open>w\<close> is the word read so far.
\<close>

fun split_blank :: "string \<Rightarrow> string \<Rightarrow> string list" where
  "split_blank w [] = (if w = [] then [] else [w])"
| "split_blank w (c # cs) =
     (if is_blank c then (if w = [] then split_blank [] cs else w # split_blank [] cs)
      else split_blank (w @ [c]) cs)"

text \<open>
  \<^verbatim>\<open>echo $output\<close>: the words of the text on one line, one space between them
  (the tool's text holds no glob character and does not start with an option of echo).
\<close>

fun join_words :: "string list \<Rightarrow> string" where
  "join_words [] = []"
| "join_words [w] = w"
| "join_words (w # ws) = w @ '' '' @ join_words ws"

text \<open>The text after the last occurrence of \<open>pat\<close>, when there is one.\<close>

fun after_last :: "string \<Rightarrow> string \<Rightarrow> string option" where
  "after_last pat [] = (if pat = [] then Some [] else None)"
| "after_last pat (c # cs) =
     (case after_last pat cs of
        Some r \<Rightarrow> Some r
      | None \<Rightarrow> if prefix pat (c # cs) then Some (drop (length pat) (c # cs)) else None)"

text \<open>
  \<^verbatim>\<open>echo $output | grep "CC mode is" | sed 's/^.* CC mode is/CC mode is/g' | awk '{print $4}'\<close>:
  grep keeps the line when the phrase occurs in it, sed replaces the longest prefix
  that ends in the phrase after a space by the phrase, awk prints the fourth field
  (nothing when there are fewer, or no line).
\<close>

definition extract_mode :: "string \<Rightarrow> string" where
  "extract_mode output =
     (let line = join_words (split_blank [] output) in
      if \<not> contains ''CC mode is'' line then ''''
      else let line' = (case after_last '' CC mode is'' line of
                          Some rest \<Rightarrow> ''CC mode is'' @ rest
                        | None \<Rightarrow> line);
               fields = split_blank [] line'
           in if 4 \<le> length fields then fields ! 3 else '''')"

text \<open>\<open>_parse_mode\<close>: \<open>Some mode\<close> is status 0 with the mode printed, \<open>None\<close> is status 1.\<close>

definition parse_mode :: "string \<Rightarrow> string option" where
  "parse_mode output =
     (let mode = extract_mode output in if is_valid_mode mode then Some mode else None)"

section \<open>External commands of the script\<close>

text \<open>
  What the script does to the node and the cluster goes through external commands. Their
  results are not the script's to decide: an environment gives the exit status and the
  captured output of a command from the commands issued before it in this run. The
  history of issued commands is the state the script's functions pass on.
\<close>

type_synonym gpu = string

datatype cmd =
    QueryCCMode gpu
  | SetCCModeAndReset gpu string
  | TestDriver gpu
  | WriteUnbind gpu
  | WriteDriverOverride gpu
  | KubectlLabel "(string \<times> string) list"
  | KubectlWait string

text \<open>
  \<^item> \<open>QueryCCMode g\<close>: \<^verbatim>\<open>gpu_cc_tool.py --query-cc-mode --gpu-bdf=g\<close>
  \<^item> \<open>SetCCModeAndReset g m\<close>: \<^verbatim>\<open>gpu_cc_tool.py --set-cc-mode=m --reset-after-cc-mode-switch --gpu-bdf=g\<close>
  \<^item> \<open>TestDriver g\<close>: \<^verbatim>\<open>[ -e /sys/bus/pci/devices/g/driver ]\<close>
  \<^item> \<open>WriteUnbind g\<close>: \<^verbatim>\<open>echo g > <driver>/unbind\<close>
  \<^item> \<open>WriteDriverOverride g\<close>: \<^verbatim>\<open>echo > /sys/bus/pci/devices/g/driver_override\<close>
  \<^item> \<open>KubectlLabel kvs\<close>: \<^verbatim>\<open>kubectl label --overwrite node $NODE_NAME k=v ...\<close>
  \<^item> \<open>KubectlWait app\<close>: \<^verbatim>\<open>kubectl wait --for=delete pod --timeout=5m ... -l app=app\<close>
\<close>

type_synonym hist = "cmd list"

type_synonym env = "hist \<Rightarrow> cmd \<Rightarrow> nat \<times> string"

definition run :: "env \<Rightarrow> cmd \<Rightarrow> hist \<Rightarrow> (nat \<times> string) \<times> hist" where
  "run env c h = (env h c, h @ [c])"

text \<open>A shell function returns a status to its caller, or ends the script with \<^verbatim>\<open>exit\<close>.\<close>

datatype status = Returned nat | Exited nat

text \<open>The five deployment labels as \<open>_fetch_current_labels\<close> read them when the script started.\<close>

record deploy_labels =
  VFIO_MANAGER_DEPLOYED :: string
  VGPU_MANAGER_DEPLOYED :: string
  SANDBOX_VALIDATOR_DEPLOYED :: string
  SANDBOX_PLUGIN_DEPLOYED :: string
  VGPU_DEVICE_MANAGER_DEPLOYED :: string

definition state_label :: string where
  "state_label = ''nvidia.com/cc.mode.state''"

definition set_state_label :: "string \<Rightarrow> cmd" where
  "set_state_label v = KubectlLabel [(state_label, v)]"

definition pause_labels :: "deploy_labels \<Rightarrow> cmd" where
  "pause_labels L = KubectlLabel
     [(''nvidia.com/gpu.deploy.vfio-manager'', maybe_set_paused (VFIO_MANAGER_DEPLOYED L)),
      (''nvidia.com/gpu.deploy.vgpu-manager'', maybe_set_paused (VGPU_MANAGER_DEPLOYED L)),
      (''nvidia.com/gpu.deploy.sandbox-device-plugin'', maybe_set_paused (SANDBOX_PLUGIN_DEPLOYED L)),
      (''nvidia.com/gpu.deploy.sandbox-validator'', maybe_set_paused (SANDBOX_VALIDATOR_DEPLOYED L)),
      (''nvidia.com/gpu.deploy.vgpu-device-manager'', maybe_set_paused (VGPU_DEVICE_MANAGER_DEPLOYED L))]"

definition resume_labels :: "deploy_labels \<Rightarrow> cmd" where
  "resume_labels L = KubectlLabel
     [(''nvidia.com/gpu.deploy.vfio-manager'', maybe_set_true (VFIO_MANAGER_DEPLOYED L)),
      (''nvidia.com/gpu.deploy.vgpu-manager'', maybe_set_true (VGPU_MANAGER_DEPLOYED L)),
      (''nvidia.com/gpu.deploy.sandbox-validator'', maybe_set_true (SANDBOX_VALIDATOR_DEPLOYED L)),
      (''nvidia.com/gpu.deploy.sandbox-device-plugin'', maybe_set_true (SANDBOX_PLUGIN_DEPLOYED L)),
      (''nvidia.com/gpu.deploy.vgpu-device-manager'', maybe_set_true (VGPU_DEVICE_MANAGER_DEPLOYED L))]"

section \<open>The functions of the script\<close>

definition reschedule_gpu_operator_components :: "env \<Rightarrow> deploy_labels \<Rightarrow> hist \<Rightarrow> nat \<times> hist" where
  "reschedule_gpu_operator_components env L h =
     (let (r, h1) = run env (resume_labels L) h
      in if fst r \<noteq> 0 then (1, h1) else (0, h1))"

definition exit_failed :: "env \<Rightarrow> deploy_labels \<Rightarrow> hist \<Rightarrow> status \<times> hist" where
  "exit_failed env L h =
     (let (r, h1) = reschedule_gpu_operator_components env L h in (Exited 1, h1))"

definition assert_gpu_cc_mode ::
  "env \<Rightarrow> deploy_labels \<Rightarrow> gpu \<Rightarrow> string \<Rightarrow> hist \<Rightarrow> status \<times> hist" where
  "assert_gpu_cc_mode env L gpu mode h =
     (let (r, h1) = run env (QueryCCMode gpu) h
      in if fst r \<noteq> 0 then exit_failed env L h1
         else (case parse_mode (snd r) of
                 None \<Rightarrow> (Returned 1, h1)
               | Some current_mode \<Rightarrow>
                   if current_mode = mode then (Returned 0, h1) else (Returned 1, h1)))"

fun assert_cc_mode ::
  "env \<Rightarrow> deploy_labels \<Rightarrow> gpu list \<Rightarrow> string \<Rightarrow> hist \<Rightarrow> status \<times> hist" where
  "assert_cc_mode env L [] mode h = (Returned 0, h)"
| "assert_cc_mode env L (gpu # gpus) mode h =
     (case assert_gpu_cc_mode env L gpu mode h of
        (Exited n, h1) \<Rightarrow> (Exited n, h1)
      | (Returned r, h1) \<Rightarrow>
          if r \<noteq> 0 then (Returned 1, h1) else assert_cc_mode env L gpus mode h1)"

text \<open>
  \<open>_unbind_device_from_driver\<close>: nothing to do when no driver is bound; otherwise the
  status is that of the last write, the one to \<^verbatim>\<open>driver_override\<close>.
\<close>

definition unbind_device_from_driver :: "env \<Rightarrow> gpu \<Rightarrow> hist \<Rightarrow> nat \<times> hist" where
  "unbind_device_from_driver env gpu h =
     (let (r0, h1) = run env (TestDriver gpu) h
      in if fst r0 \<noteq> 0 then (0, h1)
         else (let (r1, h2) = run env (WriteUnbind gpu) h1;
                   (r2, h3) = run env (WriteDriverOverride gpu) h2
               in (fst r2, h3)))"

definition unbind_device :: "env \<Rightarrow> gpu \<Rightarrow> hist \<Rightarrow> nat \<times> hist" where
  "unbind_device env gpu h = unbind_device_from_driver env gpu h"

text \<open>One of the five waits of \<open>_evict_gpu_operator_components\<close>; its status is not read.\<close>

definition wait_for_shutdown :: "env \<Rightarrow> string \<Rightarrow> string \<Rightarrow> hist \<Rightarrow> hist" where
  "wait_for_shutdown env deployed app h =
     (if deployed \<noteq> '''' then snd (run env (KubectlWait app) h) else h)"

definition evict_gpu_operator_components :: "env \<Rightarrow> deploy_labels \<Rightarrow> hist \<Rightarrow> nat \<times> hist" where
  "evict_gpu_operator_components env L h =
     (let (r, h1) = run env (pause_labels L) h
      in if fst r \<noteq> 0 then (1, h1)
         else (let h2 = wait_for_shutdown env (VFIO_MANAGER_DEPLOYED L) ''nvidia-vfio-manager'' h1;
                   h3 = wait_for_shutdown env (VGPU_MANAGER_DEPLOYED L) ''nvidia-vgpu-manager'' h2;
                   h4 = wait_for_shutdown env (SANDBOX_VALIDATOR_DEPLOYED L) ''nvidia-sandbox-validator'' h3;
                   h5 = wait_for_shutdown env (SANDBOX_PLUGIN_DEPLOYED L)
                          ''nvidia-sandbox-device-plugin-daemonset'' h4;
                   h6 = wait_for_shutdown env (VGPU_DEVICE_MANAGER_DEPLOYED L)
                          ''nvidia-vgpu-device-manager'' h5
               in (0, h6)))"

definition set_gpu_cc_mode ::
  "env \<Rightarrow> deploy_labels \<Rightarrow> string \<Rightarrow> gpu \<Rightarrow> hist \<Rightarrow> status \<times> hist" where
  "set_gpu_cc_mode env L CC_MODE gpu h =
     (case assert_gpu_cc_mode env L gpu CC_MODE h of
        (Exited n, h1) \<Rightarrow> (Exited n, h1)
      | (Returned r, h1) \<Rightarrow>
          if r = 0 then (Returned 0, h1)
          else (let (r2, h2) = run env (SetCCModeAndReset gpu CC_MODE) h1
                in if fst r2 \<noteq> 0 then (Returned 1, h2)
                   else (case assert_gpu_cc_mode env L gpu CC_MODE h2 of
                           (Exited n, h3) \<Rightarrow> (Exited n, h3)
                         | (Returned r3, h3) \<Rightarrow>
                             if r3 = 0 then (Returned 0, h3) else (Returned 1, h3))))"

text \<open>
  The body of the \<^verbatim>\<open>for gpu in "${gpus[@]}"\<close> loop of \<open>set_cc_mode\<close> for one device;
  \<open>Returned 0\<close> lets the loop go on.
\<close>

definition set_cc_mode_body ::
  "env \<Rightarrow> deploy_labels \<Rightarrow> string \<Rightarrow> gpu \<Rightarrow> hist \<Rightarrow> status \<times> hist" where
  "set_cc_mode_body env L CC_MODE gpu h =
     (let (r, h1) = unbind_device env gpu h
      in if r \<noteq> 0 then exit_failed env L h1
         else (case set_gpu_cc_mode env L CC_MODE gpu h1 of
                 (Exited n, h2) \<Rightarrow> (Exited n, h2)
               | (Returned r2, h2) \<Rightarrow>
                   if r2 \<noteq> 0
                   then (let (r3, h3) = run env (set_state_label ''failed'') h2
                         in exit_failed env L h3)
                   else (Returned 0, h2)))"

fun set_cc_mode_loop ::
  "env \<Rightarrow> deploy_labels \<Rightarrow> string \<Rightarrow> gpu list \<Rightarrow> hist \<Rightarrow> status \<times> hist" where
  "set_cc_mode_loop env L CC_MODE [] h = (Returned 0, h)"
| "set_cc_mode_loop env L CC_MODE (gpu # gpus) h =
     (case set_cc_mode_body env L CC_MODE gpu h of
        (Exited n, h1) \<Rightarrow> (Exited n, h1)
      | (Returned r, h1) \<Rightarrow> set_cc_mode_loop env L CC_MODE gpus h1)"

definition set_cc_mode ::
  "env \<Rightarrow> deploy_labels \<Rightarrow> gpu list \<Rightarrow> string \<Rightarrow> hist \<Rightarrow> status \<times> hist" where
  "set_cc_mode env L gpus CC_MODE h =
     (if length gpus = 0 then (Returned 0, h)
      else (case assert_cc_mode env L gpus CC_MODE h of
              (Exited n, h1) \<Rightarrow> (Exited n, h1)
            | (Returned r, h1) \<Rightarrow>
                if r = 0 then (Returned 0, h1)
                else (let (e, h2) = evict_gpu_operator_components env L h1
                      in if e \<noteq> 0 then (Returned 1, h2)
                         else (case set_cc_mode_loop env L CC_MODE gpus h2 of
                                 (Exited n, h3) \<Rightarrow> (Exited n, h3)
                               | (Returned r3, h3) \<Rightarrow>
                                   (let (r4, h4) = run env (set_state_label ''success'') h3;
                                        (r5, h5) = reschedule_gpu_operator_components env L h4
                                    in if r5 \<noteq> 0 then (Returned 1, h5) else (Returned 0, h5))))))"

definition get_gpu_cc_mode :: "env \<Rightarrow> gpu \<Rightarrow> hist \<Rightarrow> (nat \<times> string) \<times> hist" where
  "get_gpu_cc_mode env gpu h =
     (let (r, h1) = run env (QueryCCMode gpu) h
      in if fst r \<noteq> 0
         then ((1, ''unable to get cc mode of gpu '' @ gpu @ '', output '' @ snd r), h1)
         else (case parse_mode (snd r) of
                 None \<Rightarrow> ((1, ''unable to parse cc mode of gpu '' @ gpu @ '', output '' @ snd r), h1)
               | Some mode \<Rightarrow> ((0, mode), h1)))"

text \<open>
  The loop of \<open>get_cc_mode\<close>: \<open>mode\<close> is its local variable, \<open>out\<close> the lines printed so
  far. The result is the status and the lines printed.
\<close>

fun get_cc_mode_loop ::
  "env \<Rightarrow> gpu list \<Rightarrow> string \<Rightarrow> string list \<Rightarrow> hist \<Rightarrow> (nat \<times> string list) \<times> hist" where
  "get_cc_mode_loop env [] mode out h =
     ((0, out @ [''current cc mode of all supported gpus is '' @ mode]), h)"
| "get_cc_mode_loop env (gpu # gpus) mode out h =
     (let out1 = out @ [''getting cc mode of gpu '' @ gpu];
          (r, h1) = get_gpu_cc_mode env gpu h;
          current_mode = snd r
      in if fst r \<noteq> 0 then ((1, out1 @ [''unable to get cc mode of gpu '' @ gpu]), h1)
         else if mode \<noteq> '''' \<and> current_mode \<noteq> mode
         then ((1, out1 @ [''gpus have different cc mode on the node '' @ mode @ '', '' @ current_mode]), h1)
         else get_cc_mode_loop env gpus current_mode out1 h1)"

definition get_cc_mode :: "env \<Rightarrow> gpu list \<Rightarrow> hist \<Rightarrow> (nat \<times> string list) \<times> hist" where
  "get_cc_mode env gpus h =
     (if length gpus = 0 then ((0, [''off'']), h)
      else get_cc_mode_loop env gpus '''' [] h)"

subsection \<open>Device discovery\<close>

text \<open>An entry of \<^verbatim>\<open>/sys/bus/pci/devices\<close>: its name and the text of its files.\<close>

record pci_device =
  bdf :: string
  vendor :: string
  class_code :: string
  device :: string

fun array_contains :: "string list \<Rightarrow> string \<Rightarrow> bool" where
  "array_contains [] seeking = False"
| "array_contains (element # rest) seeking =
     (if element = seeking then True else array_contains rest seeking)"

text \<open>\<open>_get_all_cc_capable_gpus\<close>: the loop over the entries, \<open>gpus\<close> the array so far.\<close>

fun get_all_cc_capable_gpus :: "pci_device list \<Rightarrow> gpu list \<Rightarrow> gpu list" where
  "get_all_cc_capable_gpus [] gpus = gpus"
| "get_all_cc_capable_gpus (dev # devs) gpus =
     (if vendor dev \<noteq> ''0x10de'' then get_all_cc_capable_gpus devs gpus
      else if class_code dev \<noteq> ''0x030000'' \<and> class_code dev \<noteq> ''0x030200''
      then get_all_cc_capable_gpus devs gpus
      else if \<not> array_contains gpus (bdf dev)
      then get_all_cc_capable_gpus devs (gpus @ [bdf dev])
      else get_all_cc_capable_gpus devs gpus)"

text \<open>
  \<open>_populate_cc_capable_device_ids\<close>: the allow-list \<^verbatim>\<open>$CC_CAPABLE_DEVICE_IDS\<close> with
  its commas turned into line breaks and split into the array \<open>device_ids\<close>; \<open>None\<close>
  is status 1, for an empty array.
\<close>

definition populate_cc_capable_device_ids :: "string \<Rightarrow> string list option" where
  "populate_cc_capable_device_ids CC_CAPABLE_DEVICE_IDS =
     (let device_ids =
            split_blank [] (map (\<lambda>c. if c = CHR '','' then CHR 0x0A else c) CC_CAPABLE_DEVICE_IDS)
      in if length device_ids = 0 then None else Some device_ids)"

section \<open>The label watcher and the start of the reconciler (main.go)\<close>

text \<open>
  \<open>SyncableCCModeConfig\<close>: the two strings the mutex protects. There is one reader, the
  loop of \<open>start\<close>; \<open>reader\<close> says where it stands in \<open>Get\<close>: outside, inside
  \<^verbatim>\<open>cond.Wait()\<close>, or woken by a broadcast and about to take the mutex again.
\<close>

datatype reader = Idle | Waiting | Woken

record watcher =
  current :: string
  lastRead :: string
  reader :: reader


text \<open>\<open>Set\<close>: under the mutex, store the value and broadcast.\<close>

definition Set :: "string \<Rightarrow> watcher \<Rightarrow> watcher" where
  "Set v m = m\<lparr>current := v, reader := (if reader m = Waiting then Woken else reader m)\<rparr>"

text \<open>
  \<open>Get\<close> up to its return or its wait: the condition is tested once, with
  \<^verbatim>\<open>if\<close>. \<open>None\<close> means the reader is now waiting.
\<close>

definition Get_enter :: "watcher \<Rightarrow> string option \<times> watcher" where
  "Get_enter m =
     (if lastRead m = current m then (None, m\<lparr>reader := Waiting\<rparr>)
      else (Some (current m), m\<lparr>lastRead := current m\<rparr>))"

text \<open>\<open>Get\<close> after \<^verbatim>\<open>cond.Wait()\<close> has returned: the two statements that follow it.\<close>

definition Get_resume :: "watcher \<Rightarrow> string option \<times> watcher" where
  "Get_resume m = (Some (current m), m\<lparr>lastRead := current m, reader := Idle\<rparr>)"

text \<open>
  The critical sections in the order the mutex grants them. An event that cannot happen
  in a state (the reader entering \<open>Get\<close> while it is inside, or resuming while not
  woken) gives \<open>None\<close>.
\<close>

datatype event = CallSet string | EnterGet | ResumeGet

fun step :: "event \<Rightarrow> watcher \<Rightarrow> (string option \<times> watcher) option" where
  "step (CallSet v) m = Some (None, Set v m)"
| "step EnterGet m = (if reader m = Idle then Some (Get_enter m) else None)"
| "step ResumeGet m = (if reader m = Woken then Some (Get_resume m) else None)"



subsection \<open>The start of the reconciler\<close>

definition CCModeConfigLabel :: string where
  "CCModeConfigLabel = ''nvidia.com/cc.mode''"

datatype start_outcome = OsExit nat | WatchLoop

text \<open>
  \<open>start\<close> from the read of the node's labels to the loop: the modes \<open>runScript\<close> was
  called with, and whether the process ended or went on to the loop. \<open>runScript\<close>
  gives the error of the script's run, \<open>None\<close> for \<^verbatim>\<open>nil\<close>.
\<close>

definition start_initial ::
  "(string \<rightharpoonup> string) \<Rightarrow> string \<Rightarrow> (string \<Rightarrow> string option) \<Rightarrow> string list \<times> start_outcome" where
  "start_initial nodeLabels defaultCCModeFlag runScript =
     (if (case nodeLabels CCModeConfigLabel of None \<Rightarrow> True | Some v \<Rightarrow> v = '''')
      then (if defaultCCModeFlag \<noteq> ''''
            then (case runScript defaultCCModeFlag of
                    Some err \<Rightarrow> ([defaultCCModeFlag], OsExit 1)
                  | None \<Rightarrow> ([defaultCCModeFlag], WatchLoop))
            else ([], WatchLoop))
      else ([], WatchLoop))"

section \<open>A simulated node\<close>

text \<open>
  A concrete environment for running the model: every device starts in the mode the
  list gives and takes the mode of the last set-and-reset call; a driver is bound until
  it is unbound; the commands listed in \<open>faults\<close> fail, everything else succeeds.
\<close>

fun last_set_mode :: "gpu \<Rightarrow> hist \<Rightarrow> string option" where
  "last_set_mode g [] = None"
| "last_set_mode g (c # cs) =
     (case last_set_mode g cs of
        Some m \<Rightarrow> Some m
      | None \<Rightarrow> (case c of SetCCModeAndReset g' m \<Rightarrow> if g' = g then Some m else None | _ \<Rightarrow> None))"

definition tool_report :: "gpu \<Rightarrow> string \<Rightarrow> string" where
  "tool_report g m = ''GPU '' @ g @ '' CC mode is '' @ m"

definition sim_env :: "cmd list \<Rightarrow> (gpu \<times> string) list \<Rightarrow> env" where
  "sim_env faults modes h c =
     (if c \<in> set faults then (1, ''error'')
      else (case c of
              QueryCCMode g \<Rightarrow>
                (case last_set_mode g h of
                   Some m \<Rightarrow> (0, tool_report g m)
                 | None \<Rightarrow> (case map_of modes g of
                              Some m \<Rightarrow> (0, tool_report g m)
                            | None \<Rightarrow> (1, ''no such device'')))
            | TestDriver g \<Rightarrow> (if WriteUnbind g \<in> set h then 1 else 0, '''')
            | _ \<Rightarrow> (0, '''')))"

definition all_true :: deploy_labels where
  "all_true = \<lparr>VFIO_MANAGER_DEPLOYED = ''true'', VGPU_MANAGER_DEPLOYED = ''true'',
     SANDBOX_VALIDATOR_DEPLOYED = ''true'', SANDBOX_PLUGIN_DEPLOYED = ''true'',
     VGPU_DEVICE_MANAGER_DEPLOYED = ''true''\<rparr>"

definition gpu0 :: gpu where
  "gpu0 = ''0000:41:00.0''"

definition gpu1 :: gpu where
  "gpu1 = ''0000:42:00.0''"

section \<open>What a run issued\<close>

text \<open>Predicates on commands and histories, used to state what a cycle did.\<close>

fun is_query :: "cmd \<Rightarrow> bool" where
  "is_query (QueryCCMode g) = True"
| "is_query c = False"

definition is_state_write :: "cmd \<Rightarrow> bool" where
  "is_state_write c =
     (case c of KubectlLabel kvs \<Rightarrow> list_ex (\<lambda>kv. fst kv = state_label) kvs | _ \<Rightarrow> False)"

text \<open>A command that, if it writes the status label, writes \<open>success\<close> or \<open>failed\<close>.\<close>

definition status_ok :: "cmd \<Rightarrow> bool" where
  "status_ok c = (\<not> is_state_write c \<or> c = set_state_label ''success'' \<or> c = set_state_label ''failed'')"

text \<open>
  The commands a cycle for \<open>mode\<close> with the captured labels \<open>L\<close> issues: of the
  label updates only the Pause update, the Resume update and the two status writes.
\<close>

definition cycle_cmd :: "deploy_labels \<Rightarrow> string \<Rightarrow> cmd \<Rightarrow> bool" where
  "cycle_cmd L mode c =
     (case c of
        SetCCModeAndReset g m \<Rightarrow> m = mode
      | KubectlLabel kvs \<Rightarrow>
          c = pause_labels L \<or> c = resume_labels L
          \<or> c = set_state_label ''success'' \<or> c = set_state_label ''failed''
      | _ \<Rightarrow> True)"

text \<open>\<open>h'\<close> is \<open>h\<close> followed by commands that all satisfy \<open>P\<close>.\<close>

definition ext :: "(cmd \<Rightarrow> bool) \<Rightarrow> hist \<Rightarrow> hist \<Rightarrow> bool" where
  "ext P h h' = (\<exists>cs. h' = h @ cs \<and> list_all P cs)"

text \<open>An entry of the device tree that the discovery loop skips.\<close>

definition not_eligible :: "pci_device \<Rightarrow> bool" where
  "not_eligible dev = (vendor dev \<noteq> ''0x10de''
     \<or> (class_code dev \<noteq> ''0x030000'' \<and> class_code dev \<noteq> ''0x030200''))"

text \<open>The test of \<open>start\<close> on the node's labels: \<^verbatim>\<open>!ok || value == ""\<close>.\<close>

definition label_absent_or_empty :: "(string \<rightharpoonup> string) \<Rightarrow> bool" where
  "label_absent_or_empty nodeLabels =
     (nodeLabels CCModeConfigLabel = None \<or> nodeLabels CCModeConfigLabel = Some '''')"


subsection \<open>Concrete inputs\<close>

definition waits_all :: "cmd list" where
  "waits_all = [KubectlWait ''nvidia-vfio-manager'', KubectlWait ''nvidia-vgpu-manager'',
     KubectlWait ''nvidia-sandbox-validator'', KubectlWait ''nvidia-sandbox-device-plugin-daemonset'',
     KubectlWait ''nvidia-vgpu-device-manager'']"

definition unbind_cmds :: "gpu \<Rightarrow> cmd list" where
  "unbind_cmds g = [TestDriver g, WriteUnbind g, WriteDriverOverride g]"

definition h100_ids :: string where
  "h100_ids = ''0x2331,0x2339''"

definition t4 :: gpu where
  "t4 = ''0000:3b:00.0''"

definition t4_only :: "pci_device list" where
  "t4_only = [\<lparr>bdf = ''0000:3b:00.0'', vendor = ''0x10de'', class_code = ''0x030200'',
                device = ''0x1eb8''\<rparr>]"

definition labelled_on :: "string \<rightharpoonup> string" where
  "labelled_on = [CCModeConfigLabel \<mapsto> ''on'']"

definition unlabelled :: "string \<rightharpoonup> string" where
  "unlabelled = Map.empty"

definition script_fails :: "string \<Rightarrow> string option" where
  "script_fails ccMode = Some ''exit status 1''"

section \<open>Properties of the label transforms\<close>

lemma contains_self: "contains p p"
  by (cases p) simp_all

lemma sed_delete_self: "p \<noteq> [] \<Longrightarrow> sed_delete p p = []"
  by (cases p) simp_all

lemma prefix_marker_split:
  assumes pre: "prefix p (v @ d # p)" and nd: "d \<notin> set p"
  shows "prefix p v"
proof -
  from pre have "prefix p v \<or> (\<exists>us. p = v @ us \<and> prefix us (d # p))"
    by (simp add: prefix_append)
  then show ?thesis
  proof
    assume "prefix p v"
    then show ?thesis .
  next
    assume "\<exists>us. p = v @ us \<and> prefix us (d # p)"
    then obtain us where p: "p = v @ us" and us: "prefix us (d # p)"
      by blast
    show ?thesis
    proof (cases us)
      case Nil
      with p show ?thesis by simp
    next
      case (Cons u us')
      with us have "u = d" by simp
      with p Cons nd show ?thesis by simp
    qed
  qed
qed

lemma sed_delete_suffix:
  assumes ne: "p \<noteq> []" and nd: "d \<notin> set p"
  shows "\<not> contains p v \<Longrightarrow> sed_delete p (v @ d # p) = v @ [d]"
proof (induction v)
  case Nil
  from ne nd have "\<not> prefix p (d # p)"
    by (cases p) auto
  with ne show ?case
    by (simp add: sed_delete_self)
next
  case (Cons c v)
  from Cons.prems have np: "\<not> prefix p (c # v)" and nc: "\<not> contains p v"
    by simp_all
  from np prefix_marker_split [of p "c # v" d] nd
  have "\<not> prefix p ((c # v) @ d # p)"
    by blast
  with Cons.IH [OF nc] show ?case
    by simp
qed

lemma PAUSED_STR_nonempty: "PAUSED_STR \<noteq> []"
  by (simp add: PAUSED_STR_def)

lemma PAUSED_STR_no_underscore: "CHR ''_'' \<notin> set PAUSED_STR"
  by (simp add: PAUSED_STR_def)

lemma tr_delete_absent: "d \<notin> set v \<Longrightarrow> tr_delete d (v @ [d]) = v"
  by (induction v) (auto simp: tr_delete_def)

lemma sed_delete_absent: "\<not> contains p v \<Longrightarrow> sed_delete p v = v"
  by (induction v) auto

lemma tr_delete_none: "d \<notin> set v \<Longrightarrow> tr_delete d v = v"
  by (induction v) (auto simp: tr_delete_def)

lemma maybe_set_true_unpaused:
  assumes "\<not> contains PAUSED_STR v" and "CHR ''_'' \<notin> set v"
  shows "maybe_set_true v = v"
proof -
  from assms(1) have "v \<noteq> PAUSED_STR"
    using contains_self [of PAUSED_STR] by auto
  with assms show ?thesis
    by (simp add: maybe_set_true_def sed_delete_absent tr_delete_none)
qed

lemma paused_suffix_not_false: "v @ ''_'' @ PAUSED_STR \<noteq> ''false''"
proof
  assume "v @ ''_'' @ PAUSED_STR = ''false''"
  then have "length (v @ ''_'' @ PAUSED_STR) = length ''false''"
    by (rule arg_cong)
  then show False
    by (simp add: PAUSED_STR_def)
qed

lemma paused_suffix_not_marker: "v @ ''_'' @ PAUSED_STR \<noteq> PAUSED_STR"
proof
  assume "v @ ''_'' @ PAUSED_STR = PAUSED_STR"
  then have "length (v @ ''_'' @ PAUSED_STR) = length PAUSED_STR"
    by (rule arg_cong)
  then show False
    by simp
qed

text \<open>
  C2 (as amended). A value that does not contain the paused marker and has no underscore
  (the empty value, \<open>false\<close>, \<open>true\<close>, or such a pinned string) comes back unchanged
  from Pause followed by Resume. A value that already contains the marker is left as it
  is by Pause, and the bare marker resumes to \<open>true\<close>.
\<close>

theorem pause_resume_round_trip:
  "(\<not> contains PAUSED_STR v \<and> CHR ''_'' \<notin> set v
      \<longrightarrow> maybe_set_true (maybe_set_paused v) = v)
   \<and> (contains PAUSED_STR v \<longrightarrow> maybe_set_paused v = v)
   \<and> maybe_set_true (maybe_set_paused PAUSED_STR) = ''true''"
proof (intro conjI impI)
  assume h: "\<not> contains PAUSED_STR v \<and> CHR ''_'' \<notin> set v"
  then have nc: "\<not> contains PAUSED_STR v" and nu: "CHR ''_'' \<notin> set v"
    by simp_all
  from nc have nm: "v \<noteq> PAUSED_STR"
    using contains_self [of PAUSED_STR] by auto
  consider "v = ''''" | "v = ''false''" | "v = ''true''"
    | "v \<noteq> ''''" "v \<noteq> ''false''" "v \<noteq> ''true''"
    by blast
  then show "maybe_set_true (maybe_set_paused v) = v"
  proof cases
    case 1
    then show ?thesis
      by (simp add: maybe_set_paused_def maybe_set_true_def PAUSED_STR_def tr_delete_def)
  next
    case 2
    then show ?thesis
      by (simp add: maybe_set_paused_def maybe_set_true_def)
  next
    case 3
    then show ?thesis
      by (simp add: maybe_set_paused_def maybe_set_true_def PAUSED_STR_def)
  next
    case 4
    with nc have p: "maybe_set_paused v = v @ ''_'' @ PAUSED_STR"
      by (simp add: maybe_set_paused_def)
    have "sed_delete PAUSED_STR (v @ CHR ''_'' # PAUSED_STR) = v @ [CHR ''_'']"
      using PAUSED_STR_nonempty PAUSED_STR_no_underscore nc by (rule sed_delete_suffix)
    then have "tr_delete (CHR ''_'') (sed_delete PAUSED_STR (v @ ''_'' @ PAUSED_STR)) = v"
      using nu by (simp add: tr_delete_absent)
    with p paused_suffix_not_false [of v] paused_suffix_not_marker [of v]
    show ?thesis
      by (simp only: maybe_set_true_def if_False)
  qed
next
  assume "contains PAUSED_STR v"
  then show "maybe_set_paused v = v"
    by (auto simp: maybe_set_paused_def PAUSED_STR_def)
next
  show "maybe_set_true (maybe_set_paused PAUSED_STR) = ''true''"
    by (simp add: maybe_set_paused_def maybe_set_true_def contains_self)
       (simp add: PAUSED_STR_def)
qed

theorem pause_resume_round_trip_witness:
  "maybe_set_true (maybe_set_paused ''v1.2-pinned'') = ''v1.2-pinned''
   \<and> maybe_set_paused ''v1.2-pinned_paused-for-cc-mode-change''
       = ''v1.2-pinned_paused-for-cc-mode-change''"
proof -
  have a: "\<not> contains PAUSED_STR ''v1.2-pinned'' \<and> CHR ''_'' \<notin> set ''v1.2-pinned''"
    by (simp add: PAUSED_STR_def)
  have b: "contains PAUSED_STR ''v1.2-pinned_paused-for-cc-mode-change''"
    by (simp add: PAUSED_STR_def)
  from a pause_resume_round_trip [of "''v1.2-pinned''"]
  have "maybe_set_true (maybe_set_paused ''v1.2-pinned'') = ''v1.2-pinned''"
    by blast
  moreover from b pause_resume_round_trip [of "''v1.2-pinned_paused-for-cc-mode-change''"]
  have "maybe_set_paused ''v1.2-pinned_paused-for-cc-mode-change''
          = ''v1.2-pinned_paused-for-cc-mode-change''"
    by blast
  ultimately show ?thesis
    by simp
qed

text \<open>
  Values with an underscore are outside the theorem: Resume deletes every underscore of
  the value, not only the one Pause put before the marker.
\<close>

lemma round_trip_drops_underscores:
  "maybe_set_true (maybe_set_paused ''v1_2'') = ''v12''"
  by code_simp

text \<open>
  The round trip as the claim words it fails at the bare paused marker: Pause leaves it
  unchanged and Resume turns it into \<open>true\<close>.
\<close>

theorem pause_resume_marker_counterexample:
  "maybe_set_true (maybe_set_paused ''paused-for-cc-mode-change'')
     \<noteq> ''paused-for-cc-mode-change''"
  by (simp add: maybe_set_paused_def maybe_set_true_def PAUSED_STR_def)

section \<open>What the functions of the script return\<close>

lemma run_eq: "run env c h = (env h c, h @ [c])"
  by (simp add: run_def)

lemma reschedule_eq:
  "reschedule_gpu_operator_components env L h
     = (if fst (env h (resume_labels L)) \<noteq> 0 then 1 else 0, h @ [resume_labels L])"
  by (simp add: reschedule_gpu_operator_components_def run_def)

lemma exit_failed_eq: "exit_failed env L h = (Exited 1, h @ [resume_labels L])"
  by (simp add: exit_failed_def reschedule_eq)

lemma assert_gpu_cases:
  "assert_gpu_cc_mode env L g mode h = (Exited 1, h @ [QueryCCMode g, resume_labels L])
   \<or> (\<exists>r. assert_gpu_cc_mode env L g mode h = (Returned r, h @ [QueryCCMode g]))"
  by (auto simp: assert_gpu_cc_mode_def run_eq exit_failed_eq split: option.splits)

lemma assert_gpu_match:
  assumes "fst (env h (QueryCCMode g)) = 0"
      and "parse_mode (snd (env h (QueryCCMode g))) = Some mode"
  shows "assert_gpu_cc_mode env L g mode h = (Returned 0, h @ [QueryCCMode g])"
  using assms by (simp add: assert_gpu_cc_mode_def run_def)

lemma assert_cc_mode_Returned:
  "assert_cc_mode env L gpus mode h = (Returned r, h') \<Longrightarrow>
     \<exists>qs. h' = h @ qs \<and> list_all is_query qs"
proof (induction gpus arbitrary: h)
  case Nil
  then show ?case by simp
next
  case (Cons g gpus)
  from assert_gpu_cases [of env L g mode h] show ?case
  proof
    assume "assert_gpu_cc_mode env L g mode h = (Exited 1, h @ [QueryCCMode g, resume_labels L])"
    with Cons.prems show ?thesis by simp
  next
    assume "\<exists>r. assert_gpu_cc_mode env L g mode h = (Returned r, h @ [QueryCCMode g])"
    then obtain r1 where r1: "assert_gpu_cc_mode env L g mode h = (Returned r1, h @ [QueryCCMode g])"
      by blast
    show ?thesis
    proof (cases "r1 = 0")
      case True
      with r1 Cons.prems
      have "assert_cc_mode env L gpus mode (h @ [QueryCCMode g]) = (Returned r, h')"
        by simp
      from Cons.IH [OF this] obtain qs where "h' = (h @ [QueryCCMode g]) @ qs" "list_all is_query qs"
        by blast
      then have "h' = h @ (QueryCCMode g # qs) \<and> list_all is_query (QueryCCMode g # qs)"
        by simp
      then show ?thesis by blast
    next
      case False
      with r1 Cons.prems have "h' = h @ [QueryCCMode g]" by auto
      then have "h' = h @ [QueryCCMode g] \<and> list_all is_query [QueryCCMode g]" by simp
      then show ?thesis by blast
    qed
  qed
qed

lemma assert_cc_mode_all_match:
  assumes ok: "\<And>g qs. g \<in> set gpus \<Longrightarrow> list_all is_query qs \<Longrightarrow>
                 fst (env (h @ qs) (QueryCCMode g)) = 0
                 \<and> parse_mode (snd (env (h @ qs) (QueryCCMode g))) = Some mode"
  shows "list_all is_query ps \<Longrightarrow> set gs \<subseteq> set gpus \<Longrightarrow>
         assert_cc_mode env L gs mode (h @ ps) = (Returned 0, h @ ps @ map QueryCCMode gs)"
proof (induction gs arbitrary: ps)
  case Nil
  then show ?case by simp
next
  case (Cons g gs)
  from Cons.prems have g: "g \<in> set gpus" and gs: "set gs \<subseteq> set gpus"
    by simp_all
  from ok [OF g Cons.prems(1)]
  have step: "assert_gpu_cc_mode env L g mode (h @ ps) = (Returned 0, (h @ ps) @ [QueryCCMode g])"
    by (intro assert_gpu_match) simp_all
  from Cons.prems(1) have "list_all is_query (ps @ [QueryCCMode g])"
    by simp
  from Cons.IH [OF this gs] step show ?case
    by simp
qed

lemma unbind_device_cases:
  "unbind_device env g h = (0, h @ [TestDriver g])
   \<or> (\<exists>r. unbind_device env g h = (r, h @ [TestDriver g, WriteUnbind g, WriteDriverOverride g]))"
  by (simp add: unbind_device_def unbind_device_from_driver_def run_eq)

lemma wait_for_shutdown_ext:
  "\<exists>ws. wait_for_shutdown env d a h = h @ ws \<and> list_all (\<lambda>c. \<exists>a. c = KubectlWait a) ws"
  by (cases "d = ''''") (simp_all add: wait_for_shutdown_def run_eq)

lemma evict_cases:
  "(fst (env h (pause_labels L)) \<noteq> 0
      \<longrightarrow> evict_gpu_operator_components env L h = (1, h @ [pause_labels L]))
   \<and> (fst (env h (pause_labels L)) = 0
      \<longrightarrow> (\<exists>ws. evict_gpu_operator_components env L h = (0, h @ [pause_labels L] @ ws)
                \<and> list_all (\<lambda>c. \<exists>a. c = KubectlWait a) ws))"
proof (intro conjI impI)
  assume "fst (env h (pause_labels L)) \<noteq> 0"
  then show "evict_gpu_operator_components env L h = (1, h @ [pause_labels L])"
    by (simp add: evict_gpu_operator_components_def run_eq)
next
  assume ok: "fst (env h (pause_labels L)) = 0"
  define h1 where "h1 = h @ [pause_labels L]"
  obtain w1 where w1: "wait_for_shutdown env (VFIO_MANAGER_DEPLOYED L) ''nvidia-vfio-manager'' h1 = h1 @ w1"
    "list_all (\<lambda>c. \<exists>a. c = KubectlWait a) w1"
    using wait_for_shutdown_ext by blast
  obtain w2 where w2: "wait_for_shutdown env (VGPU_MANAGER_DEPLOYED L) ''nvidia-vgpu-manager'' (h1 @ w1) = (h1 @ w1) @ w2"
    "list_all (\<lambda>c. \<exists>a. c = KubectlWait a) w2"
    using wait_for_shutdown_ext by blast
  obtain w3 where w3: "wait_for_shutdown env (SANDBOX_VALIDATOR_DEPLOYED L) ''nvidia-sandbox-validator'' ((h1 @ w1) @ w2) = ((h1 @ w1) @ w2) @ w3"
    "list_all (\<lambda>c. \<exists>a. c = KubectlWait a) w3"
    using wait_for_shutdown_ext by blast
  obtain w4 where w4: "wait_for_shutdown env (SANDBOX_PLUGIN_DEPLOYED L) ''nvidia-sandbox-device-plugin-daemonset'' (((h1 @ w1) @ w2) @ w3) = (((h1 @ w1) @ w2) @ w3) @ w4"
    "list_all (\<lambda>c. \<exists>a. c = KubectlWait a) w4"
    using wait_for_shutdown_ext by blast
  obtain w5 where w5: "wait_for_shutdown env (VGPU_DEVICE_MANAGER_DEPLOYED L) ''nvidia-vgpu-device-manager'' ((((h1 @ w1) @ w2) @ w3) @ w4) = ((((h1 @ w1) @ w2) @ w3) @ w4) @ w5"
    "list_all (\<lambda>c. \<exists>a. c = KubectlWait a) w5"
    using wait_for_shutdown_ext by blast
  from ok w1(1) w2(1) w3(1) w4(1) w5(1)
  have "evict_gpu_operator_components env L h = (0, h @ [pause_labels L] @ (w1 @ w2 @ w3 @ w4 @ w5))"
    by (simp add: evict_gpu_operator_components_def run_eq h1_def)
  moreover from w1(2) w2(2) w3(2) w4(2) w5(2)
  have "list_all (\<lambda>c. \<exists>a. c = KubectlWait a) (w1 @ w2 @ w3 @ w4 @ w5)"
    by simp
  ultimately show "\<exists>ws. evict_gpu_operator_components env L h = (0, h @ [pause_labels L] @ ws)
                \<and> list_all (\<lambda>c. \<exists>a. c = KubectlWait a) ws"
    by blast
qed

lemma set_gpu_cc_mode_cases:
  "(\<exists>cs. set_gpu_cc_mode env L mode g h = (Exited 1, h @ cs @ [resume_labels L]))
   \<or> (\<exists>r cs. set_gpu_cc_mode env L mode g h = (Returned r, h @ cs))"
proof -
  from assert_gpu_cases [of env L g mode h] show ?thesis
  proof
    assume a: "assert_gpu_cc_mode env L g mode h = (Exited 1, h @ [QueryCCMode g, resume_labels L])"
    then have "set_gpu_cc_mode env L mode g h = (Exited 1, h @ [QueryCCMode g] @ [resume_labels L])"
      by (simp add: set_gpu_cc_mode_def)
    then show ?thesis by blast
  next
    assume "\<exists>r. assert_gpu_cc_mode env L g mode h = (Returned r, h @ [QueryCCMode g])"
    then obtain r where a: "assert_gpu_cc_mode env L g mode h = (Returned r, h @ [QueryCCMode g])"
      by blast
    define h2 where "h2 = h @ [QueryCCMode g, SetCCModeAndReset g mode]"
    show ?thesis
    proof (cases "r = 0")
      case True
      with a have "set_gpu_cc_mode env L mode g h = (Returned 0, h @ [QueryCCMode g])"
        by (simp add: set_gpu_cc_mode_def)
      then show ?thesis by blast
    next
      case False
      show ?thesis
      proof (cases "fst (env (h @ [QueryCCMode g]) (SetCCModeAndReset g mode)) = 0")
        case f: False
        with a \<open>r \<noteq> 0\<close>
        have "set_gpu_cc_mode env L mode g h = (Returned 1, h @ [QueryCCMode g, SetCCModeAndReset g mode])"
          by (simp add: set_gpu_cc_mode_def run_eq)
        then show ?thesis by blast
      next
        case t: True
        from assert_gpu_cases [of env L g mode h2] show ?thesis
        proof
          assume "assert_gpu_cc_mode env L g mode h2 = (Exited 1, h2 @ [QueryCCMode g, resume_labels L])"
          with a \<open>r \<noteq> 0\<close> t
          have "set_gpu_cc_mode env L mode g h
                  = (Exited 1, h @ [QueryCCMode g, SetCCModeAndReset g mode, QueryCCMode g] @ [resume_labels L])"
            by (simp add: set_gpu_cc_mode_def run_eq h2_def)
          then show ?thesis by blast
        next
          assume "\<exists>r. assert_gpu_cc_mode env L g mode h2 = (Returned r, h2 @ [QueryCCMode g])"
          then obtain r3 where "assert_gpu_cc_mode env L g mode h2 = (Returned r3, h2 @ [QueryCCMode g])"
            by blast
          with a \<open>r \<noteq> 0\<close> t
          have "set_gpu_cc_mode env L mode g h
                  = (Returned (if r3 = 0 then 0 else 1), h @ [QueryCCMode g, SetCCModeAndReset g mode, QueryCCMode g])"
            by (simp add: set_gpu_cc_mode_def run_eq h2_def)
          then show ?thesis by blast
        qed
      qed
    qed
  qed
qed

lemma set_cc_mode_body_cases:
  "(\<exists>cs. set_cc_mode_body env L mode g h = (Exited 1, h @ cs @ [resume_labels L]))
   \<or> (\<exists>cs. set_cc_mode_body env L mode g h = (Returned 0, h @ cs))"
proof -
  obtain u hu where u: "unbind_device env g h = (u, hu)"
    by (cases "unbind_device env g h")
  with unbind_device_cases [of env g h] obtain us where hu: "hu = h @ us"
    by auto
  show ?thesis
  proof (cases "u = 0")
    case False
    with u hu have "set_cc_mode_body env L mode g h = (Exited 1, h @ us @ [resume_labels L])"
      by (simp add: set_cc_mode_body_def exit_failed_eq)
    then show ?thesis by blast
  next
    case True
    from set_gpu_cc_mode_cases [of env L mode g hu] show ?thesis
    proof (elim disjE exE)
      fix cs
      assume "set_gpu_cc_mode env L mode g hu = (Exited 1, hu @ cs @ [resume_labels L])"
      with u hu True
      have "set_cc_mode_body env L mode g h = (Exited 1, h @ (us @ cs) @ [resume_labels L])"
        by (simp add: set_cc_mode_body_def)
      then show ?thesis by blast
    next
      fix r cs
      assume s: "set_gpu_cc_mode env L mode g hu = (Returned r, hu @ cs)"
      show ?thesis
      proof (cases "r = 0")
        case r0: True
        with s u hu True have "set_cc_mode_body env L mode g h = (Returned 0, h @ (us @ cs))"
          by (simp add: set_cc_mode_body_def)
        then show ?thesis by blast
      next
        case r1: False
        with s u hu True
        have "set_cc_mode_body env L mode g h
                = (Exited 1, h @ (us @ cs @ [set_state_label ''failed'']) @ [resume_labels L])"
          by (simp add: set_cc_mode_body_def run_eq exit_failed_eq)
        then show ?thesis by blast
      qed
    qed
  qed
qed

lemma set_cc_mode_loop_cases:
  "(\<exists>cs. set_cc_mode_loop env L mode gpus h = (Exited 1, h @ cs @ [resume_labels L]))
   \<or> (\<exists>cs. set_cc_mode_loop env L mode gpus h = (Returned 0, h @ cs))"
proof (induction gpus arbitrary: h)
  case Nil
  have "set_cc_mode_loop env L mode [] h = (Returned 0, h @ [])" by simp
  then show ?case by blast
next
  case (Cons g gpus)
  from set_cc_mode_body_cases [of env L mode g h] show ?case
  proof (elim disjE exE)
    fix cs
    assume "set_cc_mode_body env L mode g h = (Exited 1, h @ cs @ [resume_labels L])"
    then have "set_cc_mode_loop env L mode (g # gpus) h = (Exited 1, h @ cs @ [resume_labels L])"
      by simp
    then show ?thesis by blast
  next
    fix cs
    assume b: "set_cc_mode_body env L mode g h = (Returned 0, h @ cs)"
    from Cons.IH [of "h @ cs"] show ?thesis
    proof (elim disjE exE)
      fix ds
      assume "set_cc_mode_loop env L mode gpus (h @ cs) = (Exited 1, (h @ cs) @ ds @ [resume_labels L])"
      with b have "set_cc_mode_loop env L mode (g # gpus) h = (Exited 1, h @ (cs @ ds) @ [resume_labels L])"
        by simp
      then show ?thesis by blast
    next
      fix ds
      assume "set_cc_mode_loop env L mode gpus (h @ cs) = (Returned 0, (h @ cs) @ ds)"
      with b have "set_cc_mode_loop env L mode (g # gpus) h = (Returned 0, h @ (cs @ ds))"
        by simp
      then show ?thesis by blast
    qed
  qed
qed

subsection \<open>The commands a cycle issues\<close>

lemma ext_refl: "ext P h h"
  by (simp add: ext_def)

lemma ext_app: "list_all P cs \<Longrightarrow> ext P h (h @ cs)"
  by (auto simp: ext_def)

lemma ext_trans: "ext P h h1 \<Longrightarrow> ext P h1 h2 \<Longrightarrow> ext P h h2"
  by (auto simp: ext_def)

lemma ext_snoc: "ext P h h1 \<Longrightarrow> P c \<Longrightarrow> ext P h (h1 @ [c])"
  by (auto simp: ext_def)

lemma cycle_cmd_simps:
  "cycle_cmd L mode (QueryCCMode g)"
  "cycle_cmd L mode (SetCCModeAndReset g mode)"
  "cycle_cmd L mode (TestDriver g)"
  "cycle_cmd L mode (WriteUnbind g)"
  "cycle_cmd L mode (WriteDriverOverride g)"
  "cycle_cmd L mode (KubectlWait a)"
  "cycle_cmd L mode (pause_labels L)"
  "cycle_cmd L mode (resume_labels L)"
  "cycle_cmd L mode (set_state_label ''success'')"
  "cycle_cmd L mode (set_state_label ''failed'')"
  by (simp_all add: cycle_cmd_def pause_labels_def resume_labels_def set_state_label_def)

lemma assert_gpu_ext: "ext (cycle_cmd L m) h (snd (assert_gpu_cc_mode env L g mode h))"
  using assert_gpu_cases [of env L g mode h]
  by (auto intro!: ext_app simp: cycle_cmd_simps)

lemma assert_cc_mode_ext: "ext (cycle_cmd L m) h (snd (assert_cc_mode env L gpus mode h))"
proof (induction gpus arbitrary: h)
  case Nil
  then show ?case by (simp add: ext_refl)
next
  case (Cons g gpus)
  obtain st h1 where a: "assert_gpu_cc_mode env L g mode h = (st, h1)"
    by (cases "assert_gpu_cc_mode env L g mode h")
  with assert_gpu_ext [of L m h env g mode] have e1: "ext (cycle_cmd L m) h h1"
    by simp
  show ?case
  proof (cases st)
    case (Exited n)
    with a e1 show ?thesis by simp
  next
    case (Returned r)
    show ?thesis
    proof (cases "r = 0")
      case True
      with a Returned e1 Cons.IH [of h1] show ?thesis
        by (auto intro: ext_trans)
    next
      case False
      with a Returned e1 show ?thesis by simp
    qed
  qed
qed

lemma unbind_device_ext: "ext (cycle_cmd L m) h (snd (unbind_device env g h))"
  using unbind_device_cases [of env g h]
  by (auto intro!: ext_app simp: cycle_cmd_simps)

lemma evict_ext: "ext (cycle_cmd L m) h (snd (evict_gpu_operator_components env L h))"
proof (cases "fst (env h (pause_labels L)) = 0")
  case True
  with evict_cases [of env h L] obtain ws
    where e: "evict_gpu_operator_components env L h = (0, h @ [pause_labels L] @ ws)"
      and w: "list_all (\<lambda>c. \<exists>a. c = KubectlWait a) ws"
    by blast
  from w have "list_all (cycle_cmd L m) ws"
    by (auto simp: list_all_iff cycle_cmd_simps)
  then have "list_all (cycle_cmd L m) ([pause_labels L] @ ws)"
    by (simp add: cycle_cmd_simps)
  with e show ?thesis
    by (auto intro: ext_app simp del: append.simps)
next
  case False
  with evict_cases [of env h L] show ?thesis
    by (auto intro!: ext_app simp: cycle_cmd_simps)
qed

lemma set_gpu_cc_mode_ext: "ext (cycle_cmd L mode) h (snd (set_gpu_cc_mode env L mode g h))"
proof -
  obtain st h1 where a: "assert_gpu_cc_mode env L g mode h = (st, h1)"
    by (cases "assert_gpu_cc_mode env L g mode h")
  with assert_gpu_ext [of L mode h env g mode] have e1: "ext (cycle_cmd L mode) h h1"
    by simp
  define h2 where "h2 = h1 @ [SetCCModeAndReset g mode]"
  from e1 have e2: "ext (cycle_cmd L mode) h h2"
    unfolding h2_def by (rule ext_snoc) (simp add: cycle_cmd_simps)
  obtain st3 h3 where b: "assert_gpu_cc_mode env L g mode h2 = (st3, h3)"
    by (cases "assert_gpu_cc_mode env L g mode h2")
  with assert_gpu_ext [of L mode h2 env g mode] e2 have e3: "ext (cycle_cmd L mode) h h3"
    by (auto intro: ext_trans)
  from a b e1 e2 e3 show ?thesis
    by (auto simp: set_gpu_cc_mode_def run_eq h2_def split: status.splits)
qed

lemma set_cc_mode_body_ext: "ext (cycle_cmd L mode) h (snd (set_cc_mode_body env L mode g h))"
proof -
  obtain u hu where u: "unbind_device env g h = (u, hu)"
    by (cases "unbind_device env g h")
  with unbind_device_ext [of L mode h env g] have e1: "ext (cycle_cmd L mode) h hu"
    by simp
  obtain st h2 where s: "set_gpu_cc_mode env L mode g hu = (st, h2)"
    by (cases "set_gpu_cc_mode env L mode g hu")
  with set_gpu_cc_mode_ext [of L mode hu env g] e1 have e2: "ext (cycle_cmd L mode) h h2"
    by (auto intro: ext_trans)
  from e1 have x1: "ext (cycle_cmd L mode) h (hu @ [resume_labels L])"
    by (rule ext_snoc) (simp add: cycle_cmd_simps)
  from e2 have "ext (cycle_cmd L mode) h (h2 @ [set_state_label ''failed''])"
    by (rule ext_snoc) (simp add: cycle_cmd_simps)
  then have x2: "ext (cycle_cmd L mode) h ((h2 @ [set_state_label ''failed'']) @ [resume_labels L])"
    by (rule ext_snoc) (simp add: cycle_cmd_simps)
  from u s e2 x1 x2 show ?thesis
    by (auto simp: set_cc_mode_body_def run_eq exit_failed_eq split: status.splits)
qed

lemma set_cc_mode_loop_ext: "ext (cycle_cmd L mode) h (snd (set_cc_mode_loop env L mode gpus h))"
proof (induction gpus arbitrary: h)
  case Nil
  then show ?case by (simp add: ext_refl)
next
  case (Cons g gpus)
  obtain st h1 where b: "set_cc_mode_body env L mode g h = (st, h1)"
    by (cases "set_cc_mode_body env L mode g h")
  with set_cc_mode_body_ext [of L mode h env g] have e1: "ext (cycle_cmd L mode) h h1"
    by simp
  with b Cons.IH [of h1] show ?case
    by (auto split: status.splits intro: ext_trans)
qed

lemma set_cc_mode_ext: "ext (cycle_cmd L mode) h (snd (set_cc_mode env L gpus mode h))"
proof -
  obtain st h1 where a: "assert_cc_mode env L gpus mode h = (st, h1)"
    by (cases "assert_cc_mode env L gpus mode h")
  with assert_cc_mode_ext [of L mode h env gpus mode] have e1: "ext (cycle_cmd L mode) h h1"
    by simp
  obtain e h2 where ev: "evict_gpu_operator_components env L h1 = (e, h2)"
    by (cases "evict_gpu_operator_components env L h1")
  with evict_ext [of L mode h1 env] e1 have e2: "ext (cycle_cmd L mode) h h2"
    by (auto intro: ext_trans)
  obtain st3 h3 where l: "set_cc_mode_loop env L mode gpus h2 = (st3, h3)"
    by (cases "set_cc_mode_loop env L mode gpus h2")
  with set_cc_mode_loop_ext [of L mode h2 env gpus] e2 have e3: "ext (cycle_cmd L mode) h h3"
    by (auto intro: ext_trans)
  from e3 have "ext (cycle_cmd L mode) h (h3 @ [set_state_label ''success''])"
    by (rule ext_snoc) (simp add: cycle_cmd_simps)
  then have e5: "ext (cycle_cmd L mode) h ((h3 @ [set_state_label ''success'']) @ [resume_labels L])"
    by (rule ext_snoc) (simp add: cycle_cmd_simps)
  from a ev l e1 e2 e3 e5 show ?thesis
    by (auto simp: set_cc_mode_def run_eq reschedule_eq ext_refl split: status.splits)
qed

lemma pause_not_state_write: "\<not> is_state_write (pause_labels L)"
  by (simp add: is_state_write_def pause_labels_def state_label_def)

lemma resume_not_state_write: "\<not> is_state_write (resume_labels L)"
  by (simp add: is_state_write_def resume_labels_def state_label_def)

lemma cycle_cmd_status_ok:
  assumes "cycle_cmd L mode c"
  shows "status_ok c"
proof (cases c)
  case (KubectlLabel kvs)
  with assms have "c = pause_labels L \<or> c = resume_labels L
      \<or> c = set_state_label ''success'' \<or> c = set_state_label ''failed''"
    by (simp add: cycle_cmd_def)
  then show ?thesis
    using pause_not_state_write [of L] resume_not_state_write [of L]
    by (auto simp: status_ok_def)
qed (simp_all add: status_ok_def is_state_write_def)

lemma last_set_mode_queries: "list_all is_query qs \<Longrightarrow> last_set_mode g qs = None"
  by (induction qs) (auto split: cmd.splits option.splits elim: is_query.elims)

section \<open>The reconciliation cycle\<close>

text \<open>
  C1 (as amended). When the Pause label update fails, the cycle returns status 1 right
  after it: the only commands issued before it are mode queries, so no device is unbound,
  set or reset and no status label is written. The status of the five bounded waits is not
  read: once the Pause label update has succeeded, the eviction step returns 0 whatever
  the waits returned.
\<close>

theorem pause_label_failure_aborts:
  "(gpus \<noteq> [] \<and> assert_cc_mode env L gpus CC_MODE h = (Returned r, h1) \<and> r \<noteq> 0
      \<and> fst (env h1 (pause_labels L)) \<noteq> 0
     \<longrightarrow> set_cc_mode env L gpus CC_MODE h = (Returned 1, h1 @ [pause_labels L])
         \<and> (\<exists>qs. h1 = h @ qs \<and> list_all is_query qs))
   \<and> (fst (env h1 (pause_labels L)) = 0
     \<longrightarrow> fst (evict_gpu_operator_components env L h1) = 0)"
proof -
  have a: "gpus \<noteq> [] \<and> assert_cc_mode env L gpus CC_MODE h = (Returned r, h1) \<and> r \<noteq> 0
      \<and> fst (env h1 (pause_labels L)) \<noteq> 0
     \<longrightarrow> set_cc_mode env L gpus CC_MODE h = (Returned 1, h1 @ [pause_labels L])
         \<and> (\<exists>qs. h1 = h @ qs \<and> list_all is_query qs)"
  proof
    assume p: "gpus \<noteq> [] \<and> assert_cc_mode env L gpus CC_MODE h = (Returned r, h1) \<and> r \<noteq> 0
      \<and> fst (env h1 (pause_labels L)) \<noteq> 0"
    then have "evict_gpu_operator_components env L h1 = (1, h1 @ [pause_labels L])"
      using evict_cases [of env h1 L] by blast
    with p have "set_cc_mode env L gpus CC_MODE h = (Returned 1, h1 @ [pause_labels L])"
      by (simp add: set_cc_mode_def)
    moreover from p have "\<exists>qs. h1 = h @ qs \<and> list_all is_query qs"
      using assert_cc_mode_Returned by blast
    ultimately show "set_cc_mode env L gpus CC_MODE h = (Returned 1, h1 @ [pause_labels L])
         \<and> (\<exists>qs. h1 = h @ qs \<and> list_all is_query qs)"
      by (rule conjI)
  qed
  have b: "fst (env h1 (pause_labels L)) = 0
     \<longrightarrow> fst (evict_gpu_operator_components env L h1) = 0"
    using evict_cases [of env h1 L] by auto
  from a b show ?thesis by (rule conjI)
qed

theorem pause_label_failure_aborts_witness:
  "set_cc_mode (sim_env [pause_labels all_true] [(gpu0, ''off'')]) all_true [gpu0] ''on'' []
     = (Returned 1, [QueryCCMode gpu0, pause_labels all_true])
   \<and> fst (evict_gpu_operator_components
            (sim_env [KubectlWait ''nvidia-vfio-manager''] [(gpu0, ''off'')]) all_true
            [QueryCCMode gpu0]) = 0"
proof -
  let ?E = "sim_env [pause_labels all_true] [(gpu0, ''off'')]"
  let ?F = "sim_env [KubectlWait ''nvidia-vfio-manager''] [(gpu0, ''off'')]"
  have p: "[gpu0] \<noteq> [] \<and> assert_cc_mode ?E all_true [gpu0] ''on'' [] = (Returned 1, [QueryCCMode gpu0])
           \<and> (1::nat) \<noteq> 0 \<and> fst (?E [QueryCCMode gpu0] (pause_labels all_true)) \<noteq> 0"
    by code_simp
  have q: "fst (?F [QueryCCMode gpu0] (pause_labels all_true)) = 0"
    by code_simp
  from p pause_label_failure_aborts [where gpus = "[gpu0]" and env = ?E and L = all_true
      and CC_MODE = "''on''" and h = "[]" and r = 1 and ?h1.0 = "[QueryCCMode gpu0]"]
  have a: "set_cc_mode ?E all_true [gpu0] ''on'' [] = (Returned 1, [QueryCCMode gpu0] @ [pause_labels all_true])"
    by blast
  from q pause_label_failure_aborts [where env = ?F and L = all_true and ?h1.0 = "[QueryCCMode gpu0]"]
  have b: "fst (evict_gpu_operator_components ?F all_true [QueryCCMode gpu0]) = 0"
    by blast
  from a b show ?thesis by simp
qed

text \<open>
  The claim as worded fails: the wait for the vfio-manager times out (status 1), and the
  cycle still unbinds the device, sets its mode, and writes a status label.
\<close>

theorem eviction_timeout_counterexample:
  "fst (sim_env [KubectlWait ''nvidia-vfio-manager''] [(gpu0, ''off'')]
          [QueryCCMode gpu0, pause_labels all_true] (KubectlWait ''nvidia-vfio-manager'')) = 1
   \<and> set_cc_mode (sim_env [KubectlWait ''nvidia-vfio-manager''] [(gpu0, ''off'')]) all_true [gpu0] ''on'' []
     = (Returned 0, [QueryCCMode gpu0, pause_labels all_true] @ waits_all @ unbind_cmds gpu0
          @ [QueryCCMode gpu0, SetCCModeAndReset gpu0 ''on'', QueryCCMode gpu0,
             set_state_label ''success'', resume_labels all_true])"
  by code_simp

text \<open>
  C3 (as amended). Every status label a cycle writes is \<open>success\<close> or \<open>failed\<close>;
  when the apply loop has run over every device without exiting, the cycle writes the
  literal \<open>success\<close> and then issues the Resume update.
\<close>

theorem status_label_values:
  "(\<exists>cs. snd (set_cc_mode env L gpus CC_MODE h) = h @ cs \<and> list_all status_ok cs)
   \<and> (gpus \<noteq> [] \<and> assert_cc_mode env L gpus CC_MODE h = (Returned r, h1) \<and> r \<noteq> 0
       \<and> evict_gpu_operator_components env L h1 = (0, h2)
       \<and> set_cc_mode_loop env L CC_MODE gpus h2 = (Returned r3, h3)
      \<longrightarrow> snd (set_cc_mode env L gpus CC_MODE h)
            = h3 @ [set_state_label ''success'', resume_labels L])"
proof -
  from set_cc_mode_ext [of L CC_MODE h env gpus]
  obtain cs where cs: "snd (set_cc_mode env L gpus CC_MODE h) = h @ cs"
    and ok: "list_all (cycle_cmd L CC_MODE) cs"
    by (auto simp: ext_def)
  from ok have "list_all status_ok cs"
    by (auto simp: list_all_iff intro: cycle_cmd_status_ok)
  with cs have a: "\<exists>cs. snd (set_cc_mode env L gpus CC_MODE h) = h @ cs \<and> list_all status_ok cs"
    by blast
  have b: "gpus \<noteq> [] \<and> assert_cc_mode env L gpus CC_MODE h = (Returned r, h1) \<and> r \<noteq> 0
       \<and> evict_gpu_operator_components env L h1 = (0, h2)
       \<and> set_cc_mode_loop env L CC_MODE gpus h2 = (Returned r3, h3)
      \<longrightarrow> snd (set_cc_mode env L gpus CC_MODE h)
            = h3 @ [set_state_label ''success'', resume_labels L]"
    by (simp add: set_cc_mode_def run_eq reschedule_eq)
  from a b show ?thesis by (rule conjI)
qed

theorem status_label_values_witness:
  "snd (set_cc_mode (sim_env [] [(gpu0, ''on'')]) all_true [gpu0] ''off'' [])
     = [QueryCCMode gpu0, pause_labels all_true] @ waits_all @ unbind_cmds gpu0
       @ [QueryCCMode gpu0, SetCCModeAndReset gpu0 ''off'', QueryCCMode gpu0,
          set_state_label ''success'', resume_labels all_true]
   \<and> list_all status_ok (snd (set_cc_mode (sim_env [] [(gpu0, ''on'')]) all_true [gpu0] ''off'' []))"
proof -
  let ?E = "sim_env [] [(gpu0, ''on'')]"
  let ?h1 = "[QueryCCMode gpu0]"
  let ?h2 = "[QueryCCMode gpu0, pause_labels all_true] @ waits_all"
  let ?h3 = "?h2 @ unbind_cmds gpu0 @ [QueryCCMode gpu0, SetCCModeAndReset gpu0 ''off'', QueryCCMode gpu0]"
  have p: "[gpu0] \<noteq> [] \<and> assert_cc_mode ?E all_true [gpu0] ''off'' [] = (Returned 1, ?h1)
           \<and> (1::nat) \<noteq> 0
           \<and> evict_gpu_operator_components ?E all_true ?h1 = (0, ?h2)
           \<and> set_cc_mode_loop ?E all_true ''off'' [gpu0] ?h2 = (Returned 0, ?h3)"
    by code_simp
  note t = status_label_values [where env = ?E and L = all_true and gpus = "[gpu0]"
      and CC_MODE = "''off''" and h = "[]" and r = 1 and ?h1.0 = ?h1 and ?h2.0 = ?h2
      and ?r3.0 = 0 and ?h3.0 = ?h3]
  from p t have a: "snd (set_cc_mode ?E all_true [gpu0] ''off'' [])
      = ?h3 @ [set_state_label ''success'', resume_labels all_true]"
    by blast
  from t have b: "list_all status_ok (snd (set_cc_mode ?E all_true [gpu0] ''off'' []))"
    by auto
  from a b show ?thesis by simp
qed

text \<open>
  The claim as worded fails: the desired mode is \<open>on\<close>, the device reaches it, and the
  status written is \<open>success\<close>, not \<open>on\<close>.
\<close>

theorem status_success_counterexample:
  "set_cc_mode (sim_env [] [(gpu0, ''off'')]) all_true [gpu0] ''on'' []
     = (Returned 0, [QueryCCMode gpu0, pause_labels all_true] @ waits_all @ unbind_cmds gpu0
          @ [QueryCCMode gpu0, SetCCModeAndReset gpu0 ''on'', QueryCCMode gpu0,
             set_state_label ''success'', resume_labels all_true])
   \<and> set_state_label ''success'' \<noteq> set_state_label ''on''"
  by code_simp

text \<open>
  C4 (as amended). In a cycle whose Pause label update is issued and succeeds, the
  Resume label update for the five kinds (\<open>_maybe_set_true\<close> of each captured value) is
  the last command of the cycle, whether the cycle succeeds, exits on a device failure,
  or exits on a tool failure. For a captured value without the paused marker and without
  an underscore, the value Resume writes is the captured value itself.
\<close>

theorem resume_after_successful_pause:
  "(gpus \<noteq> [] \<and> assert_cc_mode env L gpus CC_MODE h = (Returned r, h1) \<and> r \<noteq> 0
      \<and> fst (env h1 (pause_labels L)) = 0
     \<longrightarrow> (\<exists>cs. snd (set_cc_mode env L gpus CC_MODE h)
               = h1 @ [pause_labels L] @ cs @ [resume_labels L]))
   \<and> (\<not> contains PAUSED_STR v \<and> CHR ''_'' \<notin> set v \<longrightarrow> maybe_set_true v = v)"
proof -
  have a: "gpus \<noteq> [] \<and> assert_cc_mode env L gpus CC_MODE h = (Returned r, h1) \<and> r \<noteq> 0
      \<and> fst (env h1 (pause_labels L)) = 0
     \<longrightarrow> (\<exists>cs. snd (set_cc_mode env L gpus CC_MODE h)
               = h1 @ [pause_labels L] @ cs @ [resume_labels L])"
  proof
    assume p: "gpus \<noteq> [] \<and> assert_cc_mode env L gpus CC_MODE h = (Returned r, h1) \<and> r \<noteq> 0
      \<and> fst (env h1 (pause_labels L)) = 0"
    then have ok: "fst (env h1 (pause_labels L)) = 0"
      by simp
    from ok evict_cases [of env h1 L] obtain ws
      where ev: "evict_gpu_operator_components env L h1 = (0, h1 @ [pause_labels L] @ ws)"
      by blast
    define h2 where "h2 = h1 @ [pause_labels L] @ ws"
    from set_cc_mode_loop_cases [of env L CC_MODE gpus h2]
    show "\<exists>cs. snd (set_cc_mode env L gpus CC_MODE h)
               = h1 @ [pause_labels L] @ cs @ [resume_labels L]"
    proof (elim disjE exE)
      fix cs
      assume "set_cc_mode_loop env L CC_MODE gpus h2 = (Exited 1, h2 @ cs @ [resume_labels L])"
      with p ev
      have "snd (set_cc_mode env L gpus CC_MODE h)
              = h1 @ [pause_labels L] @ (ws @ cs) @ [resume_labels L]"
        by (simp add: set_cc_mode_def h2_def)
      then show ?thesis by blast
    next
      fix cs
      assume "set_cc_mode_loop env L CC_MODE gpus h2 = (Returned 0, h2 @ cs)"
      with p ev
      have "snd (set_cc_mode env L gpus CC_MODE h)
              = h1 @ [pause_labels L] @ (ws @ cs @ [set_state_label ''success'']) @ [resume_labels L]"
        by (simp add: set_cc_mode_def h2_def run_eq reschedule_eq)
      then show ?thesis by blast
    qed
  qed
  have b: "\<not> contains PAUSED_STR v \<and> CHR ''_'' \<notin> set v \<longrightarrow> maybe_set_true v = v"
    by (simp add: maybe_set_true_unpaused)
  from a b show ?thesis by (rule conjI)
qed

theorem resume_after_successful_pause_witness:
  "last (snd (set_cc_mode (sim_env [SetCCModeAndReset gpu0 ''on''] [(gpu0, ''off'')])
                all_true [gpu0] ''on'' [])) = resume_labels all_true
   \<and> maybe_set_true ''true'' = ''true''"
proof -
  let ?E = "sim_env [SetCCModeAndReset gpu0 ''on''] [(gpu0, ''off'')]"
  have p: "[gpu0] \<noteq> [] \<and> assert_cc_mode ?E all_true [gpu0] ''on'' [] = (Returned 1, [QueryCCMode gpu0])
           \<and> (1::nat) \<noteq> 0 \<and> fst (?E [QueryCCMode gpu0] (pause_labels all_true)) = 0"
    by code_simp
  have q: "\<not> contains PAUSED_STR ''true'' \<and> CHR ''_'' \<notin> set ''true''"
    by code_simp
  note t = resume_after_successful_pause [where gpus = "[gpu0]" and env = ?E and L = all_true
      and CC_MODE = "''on''" and h = "[]" and r = 1 and ?h1.0 = "[QueryCCMode gpu0]"
      and v = "''true''"]
  from p t obtain cs where "snd (set_cc_mode ?E all_true [gpu0] ''on'' [])
      = [QueryCCMode gpu0] @ [pause_labels all_true] @ cs @ [resume_labels all_true]"
    by blast
  then have a: "last (snd (set_cc_mode ?E all_true [gpu0] ''on'' [])) = resume_labels all_true"
    by simp
  from q t have b: "maybe_set_true ''true'' = ''true''"
    by blast
  from a b show ?thesis by (rule conjI)
qed

text \<open>
  The claim as worded fails: the Pause label update is issued and fails, and the cycle
  returns 1 without issuing the Resume update.
\<close>

theorem pause_failure_no_resume_counterexample:
  "set_cc_mode (sim_env [pause_labels all_true] [(gpu0, ''on''), (gpu1, ''on'')])
      all_true [gpu0, gpu1] ''off'' []
     = (Returned 1, [QueryCCMode gpu0, pause_labels all_true])"
  by code_simp

text \<open>
  C5. The code at a failing input: the query tool fails on the second device inside the
  apply loop. \<open>_assert_gpu_cc_mode\<close> calls \<open>_exit_failed\<close> itself, so the script issues
  the Resume update and exits with 1, and the status label \<open>failed\<close> is never written.
\<close>

theorem query_failure_skips_failed_status:
  "set_cc_mode (sim_env [QueryCCMode gpu1] [(gpu0, ''off''), (gpu1, ''on'')])
      all_true [gpu0, gpu1] ''on'' []
     = (Exited 1, [QueryCCMode gpu0, pause_labels all_true] @ waits_all @ unbind_cmds gpu0
          @ [QueryCCMode gpu0, SetCCModeAndReset gpu0 ''on'', QueryCCMode gpu0]
          @ unbind_cmds gpu1 @ [QueryCCMode gpu1, resume_labels all_true])"
  by code_simp

text \<open>
  C6 (as amended). For a device of the apply loop the script first unbinds (only the
  test when no driver is bound, else the two writes as well), whatever the device's mode.
  It then queries the mode: when it equals the desired mode the device is done, with no
  set-and-reset call; otherwise, the tool calls succeeding, it issues the single
  set-and-reset call and queries again, and the device succeeds exactly when the mode read
  back is the desired one; if not, the script writes \<open>failed\<close>, resumes and exits.
\<close>

theorem per_device_sequence:
  "(fst (env h (TestDriver g)) \<noteq> 0 \<longrightarrow> unbind_device env g h = (0, h @ [TestDriver g]))
   \<and> (fst (env h (TestDriver g)) = 0
        \<longrightarrow> snd (unbind_device env g h) = h @ [TestDriver g, WriteUnbind g, WriteDriverOverride g])
   \<and> (unbind_device env g h = (0, hu) \<and> env hu (QueryCCMode g) = (0, out)
        \<and> parse_mode out = Some CC_MODE
      \<longrightarrow> set_cc_mode_body env L CC_MODE g h = (Returned 0, hu @ [QueryCCMode g]))
   \<and> (unbind_device env g h = (0, hu) \<and> env hu (QueryCCMode g) = (0, out)
        \<and> parse_mode out \<noteq> Some CC_MODE
        \<and> fst (env (hu @ [QueryCCMode g]) (SetCCModeAndReset g CC_MODE)) = 0
        \<and> env (hu @ [QueryCCMode g, SetCCModeAndReset g CC_MODE]) (QueryCCMode g) = (0, out2)
      \<longrightarrow> (parse_mode out2 = Some CC_MODE
            \<longrightarrow> set_cc_mode_body env L CC_MODE g h
                 = (Returned 0, hu @ [QueryCCMode g, SetCCModeAndReset g CC_MODE, QueryCCMode g]))
          \<and> (parse_mode out2 \<noteq> Some CC_MODE
            \<longrightarrow> set_cc_mode_body env L CC_MODE g h
                 = (Exited 1, hu @ [QueryCCMode g, SetCCModeAndReset g CC_MODE, QueryCCMode g,
                                    set_state_label ''failed'', resume_labels L])))"
proof -
  have a: "fst (env h (TestDriver g)) \<noteq> 0 \<longrightarrow> unbind_device env g h = (0, h @ [TestDriver g])"
    by (simp add: unbind_device_def unbind_device_from_driver_def run_eq)
  have b: "fst (env h (TestDriver g)) = 0
        \<longrightarrow> snd (unbind_device env g h) = h @ [TestDriver g, WriteUnbind g, WriteDriverOverride g]"
    by (simp add: unbind_device_def unbind_device_from_driver_def run_eq)
  have c: "unbind_device env g h = (0, hu) \<and> env hu (QueryCCMode g) = (0, out)
        \<and> parse_mode out = Some CC_MODE
      \<longrightarrow> set_cc_mode_body env L CC_MODE g h = (Returned 0, hu @ [QueryCCMode g])"
    by (simp add: set_cc_mode_body_def set_gpu_cc_mode_def assert_gpu_cc_mode_def run_eq)
  have d: "unbind_device env g h = (0, hu) \<and> env hu (QueryCCMode g) = (0, out)
        \<and> parse_mode out \<noteq> Some CC_MODE
        \<and> fst (env (hu @ [QueryCCMode g]) (SetCCModeAndReset g CC_MODE)) = 0
        \<and> env (hu @ [QueryCCMode g, SetCCModeAndReset g CC_MODE]) (QueryCCMode g) = (0, out2)
      \<longrightarrow> (parse_mode out2 = Some CC_MODE
            \<longrightarrow> set_cc_mode_body env L CC_MODE g h
                 = (Returned 0, hu @ [QueryCCMode g, SetCCModeAndReset g CC_MODE, QueryCCMode g]))
          \<and> (parse_mode out2 \<noteq> Some CC_MODE
            \<longrightarrow> set_cc_mode_body env L CC_MODE g h
                 = (Exited 1, hu @ [QueryCCMode g, SetCCModeAndReset g CC_MODE, QueryCCMode g,
                                    set_state_label ''failed'', resume_labels L]))"
    by (auto simp: set_cc_mode_body_def set_gpu_cc_mode_def assert_gpu_cc_mode_def run_eq
          exit_failed_eq split: option.splits)
  from a b c d show ?thesis by (intro conjI)
qed

theorem per_device_sequence_witness:
  "set_cc_mode_body (sim_env [] [(gpu0, ''off'')]) all_true ''on'' gpu0 []
     = (Returned 0, unbind_cmds gpu0 @ [QueryCCMode gpu0, SetCCModeAndReset gpu0 ''on'', QueryCCMode gpu0])
   \<and> set_cc_mode_body (sim_env [] [(gpu0, ''on'')]) all_true ''on'' gpu0 [WriteUnbind gpu0]
     = (Returned 0, [WriteUnbind gpu0, TestDriver gpu0, QueryCCMode gpu0])"
proof -
  let ?E = "sim_env [] [(gpu0, ''off'')]"
  let ?F = "sim_env [] [(gpu0, ''on'')]"
  have p: "unbind_device ?E gpu0 [] = (0, unbind_cmds gpu0)
      \<and> ?E (unbind_cmds gpu0) (QueryCCMode gpu0) = (0, tool_report gpu0 ''off'')
      \<and> parse_mode (tool_report gpu0 ''off'') \<noteq> Some ''on''
      \<and> fst (?E (unbind_cmds gpu0 @ [QueryCCMode gpu0]) (SetCCModeAndReset gpu0 ''on'')) = 0
      \<and> ?E (unbind_cmds gpu0 @ [QueryCCMode gpu0, SetCCModeAndReset gpu0 ''on'']) (QueryCCMode gpu0)
          = (0, tool_report gpu0 ''on'')"
    by code_simp
  have p2: "parse_mode (tool_report gpu0 ''on'') = Some ''on''"
    by code_simp
  from p p2 per_device_sequence [where env = ?E and g = gpu0 and h = "[]" and hu = "unbind_cmds gpu0"
      and out = "tool_report gpu0 ''off''" and CC_MODE = "''on''" and L = all_true
      and ?out2.0 = "tool_report gpu0 ''on''"]
  have a: "set_cc_mode_body ?E all_true ''on'' gpu0 []
     = (Returned 0, unbind_cmds gpu0 @ [QueryCCMode gpu0, SetCCModeAndReset gpu0 ''on'', QueryCCMode gpu0])"
    by blast
  have q: "unbind_device ?F gpu0 [WriteUnbind gpu0] = (0, [WriteUnbind gpu0, TestDriver gpu0])
      \<and> ?F [WriteUnbind gpu0, TestDriver gpu0] (QueryCCMode gpu0) = (0, tool_report gpu0 ''on'')"
    by code_simp
  from q p2 per_device_sequence [where env = ?F and g = gpu0 and h = "[WriteUnbind gpu0]"
      and hu = "[WriteUnbind gpu0, TestDriver gpu0]"
      and out = "tool_report gpu0 ''on''" and CC_MODE = "''on''" and L = all_true]
  have b: "set_cc_mode_body ?F all_true ''on'' gpu0 [WriteUnbind gpu0]
     = (Returned 0, [WriteUnbind gpu0, TestDriver gpu0] @ [QueryCCMode gpu0])"
    by blast
  from a b show ?thesis by simp
qed

text \<open>
  The claim as worded fails: the second device is already in the desired mode, and the
  script still unbinds it before it queries it.
\<close>

theorem unbind_before_query_counterexample:
  "set_cc_mode (sim_env [] [(gpu0, ''off''), (gpu1, ''on'')]) all_true [gpu0, gpu1] ''on'' []
     = (Returned 0, [QueryCCMode gpu0, pause_labels all_true] @ waits_all @ unbind_cmds gpu0
          @ [QueryCCMode gpu0, SetCCModeAndReset gpu0 ''on'', QueryCCMode gpu0]
          @ [TestDriver gpu1, WriteUnbind gpu1, WriteDriverOverride gpu1, QueryCCMode gpu1]
          @ [set_state_label ''success'', resume_labels all_true])"
  by code_simp

text \<open>
  C9. When every device reports the desired mode for as long as only queries are issued,
  the cycle returns 0 and has issued one query per device and nothing else: no unbind, no
  set-and-reset, no label update.
\<close>

theorem cycle_noop_when_modes_match:
  assumes "\<forall>g \<in> set gpus. \<forall>qs. list_all is_query qs \<longrightarrow>
             fst (env (h @ qs) (QueryCCMode g)) = 0
             \<and> parse_mode (snd (env (h @ qs) (QueryCCMode g))) = Some CC_MODE"
  shows "set_cc_mode env L gpus CC_MODE h = (Returned 0, h @ map QueryCCMode gpus)"
proof -
  have "assert_cc_mode env L gpus CC_MODE (h @ []) = (Returned 0, h @ [] @ map QueryCCMode gpus)"
    by (rule assert_cc_mode_all_match) (use assms in auto)
  then show ?thesis
    by (simp add: set_cc_mode_def)
qed

theorem cycle_noop_when_modes_match_witness:
  "set_cc_mode (sim_env [] [(gpu0, ''on''), (gpu1, ''on'')]) all_true [gpu0, gpu1] ''on'' []
     = (Returned 0, [QueryCCMode gpu0, QueryCCMode gpu1])"
proof -
  let ?E = "sim_env [] [(gpu0, ''on''), (gpu1, ''on'')]"
  have p0: "parse_mode (tool_report gpu0 ''on'') = Some ''on''" by code_simp
  have p1: "parse_mode (tool_report gpu1 ''on'') = Some ''on''" by code_simp
  have m0: "map_of [(gpu0, ''on''), (gpu1, ''on'')] gpu0 = Some ''on''" by code_simp
  have m1: "map_of [(gpu0, ''on''), (gpu1, ''on'')] gpu1 = Some ''on''" by code_simp
  have "\<forall>g \<in> set [gpu0, gpu1]. \<forall>qs. list_all is_query qs \<longrightarrow>
          fst (?E ([] @ qs) (QueryCCMode g)) = 0
          \<and> parse_mode (snd (?E ([] @ qs) (QueryCCMode g))) = Some ''on''"
    using p0 p1 m0 m1
    by (simp add: sim_env_def last_set_mode_queries)
  from cycle_noop_when_modes_match [OF this, of all_true]
  show ?thesis by simp
qed

section \<open>Reading the mode of all devices\<close>

lemma discovery_skips: "list_all not_eligible devs \<Longrightarrow> get_all_cc_capable_gpus devs gpus = gpus"
  by (induction devs arbitrary: gpus) (auto simp: not_eligible_def)

text \<open>
  When no entry of the device tree passes the vendor and class tests, the array of devices
  is empty and \<open>get_cc_mode\<close> prints \<open>off\<close> and returns 0 without calling the tool.
\<close>

lemma get_cc_mode_empty_array:
  "list_all not_eligible devs \<Longrightarrow>
     get_all_cc_capable_gpus devs [] = []
     \<and> get_cc_mode env (get_all_cc_capable_gpus devs []) h = ((0, [''off'']), h)"
  by (simp add: discovery_skips get_cc_mode_def)

text \<open>
  C10. The code at a failing input: the allow-list holds two device ids and the only
  device of the node that passes the vendor and class tests has another id, so the node
  has no capable device. The discovery loop never reads the device id or the allow-list
  (\<open>_is_cc_capable_gpu\<close> is not called anywhere), so the device is in the array all the
  same, and \<open>get_cc_mode\<close> queries it: it prints the device's mode, \<open>on\<close>, instead of
  \<open>off\<close>, and returns 1 when the tool fails on the device.
\<close>

theorem uncapable_gpu_is_queried:
  "populate_cc_capable_device_ids h100_ids = Some [''0x2331'', ''0x2339'']
   \<and> array_contains [''0x2331'', ''0x2339''] ''0x1eb8'' = False
   \<and> get_all_cc_capable_gpus t4_only [] = [t4]
   \<and> get_cc_mode (sim_env [] [(t4, ''on'')]) (get_all_cc_capable_gpus t4_only []) []
       = ((0, [''getting cc mode of gpu 0000:3b:00.0'',
               ''current cc mode of all supported gpus is on'']), [QueryCCMode t4])
   \<and> get_cc_mode (sim_env [QueryCCMode t4] [(t4, ''on'')]) (get_all_cc_capable_gpus t4_only []) []
       = ((1, [''getting cc mode of gpu 0000:3b:00.0'',
               ''unable to get cc mode of gpu 0000:3b:00.0'']), [QueryCCMode t4])"
  by code_simp

section \<open>The reconciler (main.go)\<close>

text \<open>
  C7 (as amended). Before the loop, \<open>start\<close> runs the script once, with the configured
  default, exactly when the node's label is absent or empty and the default is not empty;
  the process ends with status 1 exactly when that run fails. When the label is present
  and not empty, or the default is empty, nothing is applied before the loop.
\<close>

theorem start_initial_apply:
  "(label_absent_or_empty nodeLabels \<and> dflt \<noteq> '''' \<longrightarrow>
      fst (start_initial nodeLabels dflt runScript) = [dflt]
      \<and> (snd (start_initial nodeLabels dflt runScript) = OsExit 1 \<longleftrightarrow> runScript dflt \<noteq> None)
      \<and> (snd (start_initial nodeLabels dflt runScript) = WatchLoop \<longleftrightarrow> runScript dflt = None))
   \<and> (\<not> label_absent_or_empty nodeLabels \<or> dflt = '''' \<longrightarrow>
        start_initial nodeLabels dflt runScript = ([], WatchLoop))"
  by (auto simp: start_initial_def label_absent_or_empty_def split: option.splits)

theorem start_initial_apply_witness:
  "fst (start_initial unlabelled ''off'' script_fails) = [''off'']
   \<and> snd (start_initial unlabelled ''off'' script_fails) = OsExit 1
   \<and> start_initial labelled_on ''off'' script_fails = ([], WatchLoop)"
proof -
  have a: "label_absent_or_empty unlabelled \<and> ''off'' \<noteq> ''''"
    by (simp add: label_absent_or_empty_def unlabelled_def)
  have b: "\<not> label_absent_or_empty labelled_on \<or> ''off'' = ''''"
    by (simp add: label_absent_or_empty_def labelled_on_def)
  have c: "script_fails ''off'' \<noteq> None"
    by (simp add: script_fails_def)
  from a c start_initial_apply [of unlabelled "''off''" script_fails]
  have "fst (start_initial unlabelled ''off'' script_fails) = [''off'']
        \<and> snd (start_initial unlabelled ''off'' script_fails) = OsExit 1"
    by blast
  moreover from b start_initial_apply [of labelled_on "''off''" script_fails]
  have "start_initial labelled_on ''off'' script_fails = ([], WatchLoop)"
    by blast
  ultimately show ?thesis by simp
qed

text \<open>
  The claim as worded fails: the node is labelled \<open>on\<close>, every run of the script would
  fail, and \<open>start\<close> applies nothing and goes on to the loop.
\<close>

theorem start_initial_labelled_counterexample:
  "start_initial labelled_on ''off'' script_fails = ([], WatchLoop)"
  by (simp add: start_initial_def labelled_on_def)











end
